theory Spec2Isabelle
  imports Complex_Main "HOL-Library.Sublist" "HOL-Library.Multiset"
begin

section \<open>Python values\<close>

text \<open>
  A Python \<open>str\<close> is a sequence of Unicode code points. The string literals of
  \<open>hh.py\<close> that are plain ASCII are written with \<open>str\<close>; the Cyrillic
  literal returned by \<open>validation_data\<close> is spelled out code point by code point.
\<close>

type_synonym pystr = "nat list"

definition str :: "string \<Rightarrow> pystr" where
  "str s = map of_char s"

text \<open>
  The values that \<open>json.load\<close> yields for a scalar field and that the constructor of
  \<open>Vacancies\<close> receives: \<open>None\<close>, \<open>bool\<close>, \<open>int\<close> (unbounded), \<open>float\<close> and
  \<open>str\<close>. A finite float is read as the real number it denotes (Python compares
  \<open>int\<close> and \<open>float\<close> by exact mathematical value); \<open>nan\<close> and the infinities,
  and nested lists and objects as field values, are outside the model.
\<close>

datatype pyval = PNone | PBool bool | PInt int | PFloat real | PStr pystr

text \<open>The exceptions raised by the modelled code.\<close>

datatype error = ValueError | TypeError | AttributeError

text \<open>
  \<open>isinstance(v, (int, float))\<close> and \<open>isinstance(v, int)\<close>: \<open>bool\<close> is a subclass
  of \<open>int\<close>, with \<open>False = 0\<close> and \<open>True = 1\<close>.
\<close>

fun num_val :: "pyval \<Rightarrow> real option" where
  "num_val (PBool b) = Some (if b then 1 else 0)"
| "num_val (PInt i) = Some (of_int i)"
| "num_val (PFloat x) = Some x"
| "num_val PNone = None"
| "num_val (PStr s) = None"

fun int_val :: "pyval \<Rightarrow> int option" where
  "int_val (PBool b) = Some (if b then 1 else 0)"
| "int_val (PInt i) = Some i"
| "int_val (PFloat x) = None"
| "int_val PNone = None"
| "int_val (PStr s) = None"

text \<open>
  \<open>a == b\<close> on these values: numbers of the three numeric types compare by value,
  strings and \<open>None\<close> compare with their own kind only. \<open>a != b\<close> is its negation.
\<close>

fun py_eq :: "pyval \<Rightarrow> pyval \<Rightarrow> bool" where
  "py_eq PNone b = (b = PNone)"
| "py_eq (PStr s) b = (b = PStr s)"
| "py_eq a b =
     (case (num_val a, num_val b) of
        (Some x, Some y) \<Rightarrow> x = y
      | _ \<Rightarrow> False)"

text \<open>\<open>s < t\<close> on \<open>str\<close>: lexicographic on code points.\<close>

fun str_lt :: "pystr \<Rightarrow> pystr \<Rightarrow> bool" where
  "str_lt [] [] = False"
| "str_lt [] (d # t) = True"
| "str_lt (c # s) [] = False"
| "str_lt (c # s) (d # t) = (if c < d then True else if d < c then False else str_lt s t)"

text \<open>
  \<open>a < b\<close>: defined between numbers and between strings; every other pair
  (also \<open>None < None\<close>) raises \<open>TypeError\<close>.
\<close>

fun py_lt :: "pyval \<Rightarrow> pyval \<Rightarrow> error + bool" where
  "py_lt (PStr s) (PStr t) = Inr (str_lt s t)"
| "py_lt a b =
     (case (num_val a, num_val b) of
        (Some x, Some y) \<Rightarrow> Inr (x < y)
      | _ \<Rightarrow> Inl TypeError)"

section \<open>The class \<open>Vacancies\<close>\<close>

record Vacancies =
  name :: pyval
  link :: pyval
  salary :: pyval
  description :: pyval
  id' :: pyval

text \<open>The literal returned for a salary that is not given.\<close>

definition salary_not_specified :: pystr where
  "salary_not_specified =
     [1047, 1072, 1088, 1087, 1083, 1072, 1090, 1072, 32,
      1085, 1077, 32, 1091, 1082, 1072, 1079, 1072, 1085, 1072]"

definition validation_data :: "pyval \<Rightarrow> error + pyval" where
  "validation_data s =
     (if s = PNone \<or> py_eq s (PStr []) then Inr (PStr salary_not_specified)
      else if num_val s = None then Inl ValueError
      else if (case py_lt s (PInt 0) of Inr b \<Rightarrow> b | Inl e \<Rightarrow> False) then Inl ValueError
      else Inr s)"

text \<open>\<open>Vacancies.__init__\<close>: the constructor fails when \<open>validation_data\<close> raises.\<close>

definition Vacancies_init :: "pyval \<Rightarrow> pyval \<Rightarrow> pyval \<Rightarrow> pyval \<Rightarrow> pyval \<Rightarrow> error + Vacancies" where
  "Vacancies_init n l s d i =
     (case validation_data s of
        Inl e \<Rightarrow> Inl e
      | Inr v \<Rightarrow> Inr \<lparr>name = n, link = l, salary = v, description = d, id' = i\<rparr>)"

text \<open>
  A raw item, and an entry of the JSON file, is a \<open>dict\<close> from field names to values.
  \<open>d.get(key, default)\<close> and \<open>d.get(key)\<close>, whose default is \<open>None\<close>:
\<close>

type_synonym entry = "pystr \<rightharpoonup> pyval"

definition dict_get :: "entry \<Rightarrow> pystr \<Rightarrow> pyval \<Rightarrow> pyval" where
  "dict_get d key dflt = (case d key of None \<Rightarrow> dflt | Some v \<Rightarrow> v)"

text \<open>
  \<open>cast_to_object_list\<close>: the loop appends one object per item; an exception of the
  constructor ends it.
\<close>

fun cast_loop :: "Vacancies list \<Rightarrow> entry list \<Rightarrow> error + Vacancies list" where
  "cast_loop object_list [] = Inr object_list"
| "cast_loop object_list (vacancy # rest) =
     (case Vacancies_init
             (dict_get vacancy (str ''name'') PNone)
             (dict_get vacancy (str ''link'') PNone)
             (dict_get vacancy (str ''salary'') (PInt 0))
             (dict_get vacancy (str ''description'') (PStr []))
             (dict_get vacancy (str ''id'') PNone) of
        Inl e \<Rightarrow> Inl e
      | Inr obj \<Rightarrow> cast_loop (object_list @ [obj]) rest)"

definition cast_to_object_list :: "entry list \<Rightarrow> error + Vacancies list" where
  "cast_to_object_list vacancies_list = cast_loop [] vacancies_list"

section \<open>The class \<open>JSONSaver\<close>\<close>

text \<open>
  The state of the store is the content of its file: a JSON list of objects. Every method
  reads the whole list with \<open>json.load\<close> and the two mutating ones write the whole new
  list back with \<open>json.dump\<close>; on the values of \<open>pyval\<close> writing then reading is the
  identity. The file is taken to exist and to hold a list (the constructor creates it).
\<close>

definition vacancy_dict :: "Vacancies \<Rightarrow> entry" where
  "vacancy_dict vacancy_data =
     [str ''name'' \<mapsto> name vacancy_data,
      str ''link'' \<mapsto> link vacancy_data,
      str ''salary'' \<mapsto> salary vacancy_data,
      str ''description'' \<mapsto> description vacancy_data,
      str ''id'' \<mapsto> id' vacancy_data]"

definition add_vacancy :: "entry list \<Rightarrow> Vacancies \<Rightarrow> entry list" where
  "add_vacancy file vacancy_data = file @ [vacancy_dict vacancy_data]"

text \<open>
  \<open>get_vacancies\<close>: \<open>criteria.items()\<close> is the list of the (key, value) pairs of the
  criteria; the inner loop leaves at the first pair that differs.
\<close>

fun matches :: "entry \<Rightarrow> (pystr \<times> pyval) list \<Rightarrow> bool" where
  "matches vacancy [] = True"
| "matches vacancy ((key, val) # items) =
     (if \<not> py_eq (dict_get vacancy key PNone) val then False else matches vacancy items)"

fun get_vacancies_loop :: "(pystr \<times> pyval) list \<Rightarrow> entry list \<Rightarrow> entry list \<Rightarrow> entry list" where
  "get_vacancies_loop criteria result [] = result"
| "get_vacancies_loop criteria result (vacancy # rest) =
     (if matches vacancy criteria then get_vacancies_loop criteria (result @ [vacancy]) rest
      else get_vacancies_loop criteria result rest)"

definition get_vacancies :: "entry list \<Rightarrow> (pystr \<times> pyval) list \<Rightarrow> entry list" where
  "get_vacancies file criteria = get_vacancies_loop criteria [] file"

text \<open>\<open>delete_vacancy\<close> returns the new content of the file.\<close>

fun delete_loop :: "pyval \<Rightarrow> entry list \<Rightarrow> entry list \<Rightarrow> entry list" where
  "delete_loop vacancy_id not_suitable [] = not_suitable"
| "delete_loop vacancy_id not_suitable (vacancy # rest) =
     (if \<not> py_eq (dict_get vacancy (str ''id'') PNone) vacancy_id
      then delete_loop vacancy_id (not_suitable @ [vacancy]) rest
      else delete_loop vacancy_id not_suitable rest)"

definition delete_vacancy :: "entry list \<Rightarrow> pyval \<Rightarrow> entry list" where
  "delete_vacancy file vacancy_id = delete_loop vacancy_id [] file"

section \<open>The functions of \<open>user_interaction\<close>\<close>

text \<open>
  Two built-ins consult Unicode tables that are not part of the repository:
  \<open>str.lower\<close> and \<open>int\<close> applied to a string (\<open>None\<close> where it raises
  \<open>ValueError\<close>). The functions that call them take them as the parameters
  \<open>lower\<close> and \<open>int_of\<close>; \<open>lower_ascii\<close> and \<open>int_ascii\<close> below are what the
  built-ins compute on the ASCII strings used in the examples.
\<close>

text \<open>\<open>w in s\<close> on strings: \<open>w\<close> occurs in \<open>s\<close> as a contiguous run.\<close>

fun starts_with :: "pystr \<Rightarrow> pystr \<Rightarrow> bool" where
  "starts_with [] s = True"
| "starts_with (c # w) [] = False"
| "starts_with (c # w) (d # s) = (c = d \<and> starts_with w s)"

fun str_in :: "pystr \<Rightarrow> pystr \<Rightarrow> bool" where
  "str_in w [] = (w = [])"
| "str_in w (d # s) = (starts_with w (d # s) \<or> str_in w s)"

text \<open>
  \<open>filter_vacancies\<close>. The generator inside \<open>any\<close> evaluates, for each word in turn,
  \<open>word.lower()\<close> and then \<open>vacancy.get("description", "").lower()\<close>, which raises
  \<open>AttributeError\<close> when the description is not a string; \<open>any\<close> stops at the first
  word found.
\<close>

fun any_word :: "(pystr \<Rightarrow> pystr) \<Rightarrow> entry \<Rightarrow> pystr list \<Rightarrow> error + bool" where
  "any_word lower vacancy [] = Inr False"
| "any_word lower vacancy (word # rest) =
     (case dict_get vacancy (str ''description'') (PStr []) of
        PStr d \<Rightarrow> if str_in (lower word) (lower d) then Inr True else any_word lower vacancy rest
      | _ \<Rightarrow> Inl AttributeError)"

fun filter_loop :: "(pystr \<Rightarrow> pystr) \<Rightarrow> pystr list \<Rightarrow> entry list \<Rightarrow> entry list \<Rightarrow> error + entry list" where
  "filter_loop lower filter_words filtered [] = Inr filtered"
| "filter_loop lower filter_words filtered (vacancy # rest) =
     (case any_word lower vacancy filter_words of
        Inl e \<Rightarrow> Inl e
      | Inr found \<Rightarrow>
          filter_loop lower filter_words (if found then filtered @ [vacancy] else filtered) rest)"

definition filter_vacancies :: "(pystr \<Rightarrow> pystr) \<Rightarrow> entry list \<Rightarrow> pystr list \<Rightarrow> error + entry list" where
  "filter_vacancies lower vacancies filter_words = filter_loop lower filter_words [] vacancies"

text \<open>
  \<open>get_vacancies_by_salary\<close>. \<open>s.split('-')\<close> cuts \<open>s\<close> at every hyphen (code point
  45). Unpacking \<open>map(int, ...)\<close> into two names raises \<open>ValueError\<close> unless there
  are exactly two parts and \<open>int\<close> accepts both.
\<close>

fun split_hyphen :: "pystr \<Rightarrow> pystr list" where
  "split_hyphen [] = [[]]"
| "split_hyphen (c # s) =
     (if c = 45 then [] # split_hyphen s
      else (case split_hyphen s of p # ps \<Rightarrow> (c # p) # ps | [] \<Rightarrow> [[c]]))"

definition parse_range :: "(pystr \<Rightarrow> int option) \<Rightarrow> pystr \<Rightarrow> error + int \<times> int" where
  "parse_range int_of salary_range =
     (case split_hyphen salary_range of
        [a, b] \<Rightarrow>
          (case int_of a of
             None \<Rightarrow> Inl ValueError
           | Some min_salary \<Rightarrow>
               (case int_of b of
                  None \<Rightarrow> Inl ValueError
                | Some max_salary \<Rightarrow> Inr (min_salary, max_salary)))
      | _ \<Rightarrow> Inl ValueError)"

text \<open>\<open>isinstance(salary, int) and min_salary <= salary <= max_salary\<close>\<close>

definition in_salary_range :: "int \<Rightarrow> int \<Rightarrow> entry \<Rightarrow> bool" where
  "in_salary_range min_salary max_salary vacancy =
     (case int_val (dict_get vacancy (str ''salary'') PNone) of
        None \<Rightarrow> False
      | Some k \<Rightarrow> min_salary \<le> k \<and> k \<le> max_salary)"

fun range_loop :: "int \<Rightarrow> int \<Rightarrow> entry list \<Rightarrow> entry list \<Rightarrow> entry list" where
  "range_loop min_salary max_salary ranged_vacancies [] = ranged_vacancies"
| "range_loop min_salary max_salary ranged_vacancies (vacancy # rest) =
     (if in_salary_range min_salary max_salary vacancy
      then range_loop min_salary max_salary (ranged_vacancies @ [vacancy]) rest
      else range_loop min_salary max_salary ranged_vacancies rest)"

text \<open>The range is a string, or \<open>None\<close>; both \<open>None\<close> and \<open>""\<close> are false.\<close>

definition get_vacancies_by_salary ::
  "(pystr \<Rightarrow> int option) \<Rightarrow> entry list \<Rightarrow> pystr option \<Rightarrow> error + entry list" where
  "get_vacancies_by_salary int_of vacancies salary_range =
     (case salary_range of
        None \<Rightarrow> Inr vacancies
      | Some s \<Rightarrow>
          if s = [] then Inr vacancies
          else (case parse_range int_of s of
                  Inl e \<Rightarrow> Inl e
                | Inr (min_salary, max_salary) \<Rightarrow>
                    Inr (range_loop min_salary max_salary [] vacancies)))"

text \<open>
  \<open>sort_vacancies\<close>. \<open>sorted(..., key=..., reverse=True)\<close> is a stable sort that
  compares keys with \<open><\<close> only and lets an exception of \<open><\<close> through. It is modelled
  as a stable insertion sort into descending order: an entry goes in front of the sorted
  rest unless its key is smaller than the key at the front. On keys that \<open><\<close> orders the
  result of a stable sort does not depend on the algorithm; and with two entries or more
  every sorting algorithm has to compare each entry with some other one, so a list whose
  keys \<open><\<close> cannot compare raises \<open>TypeError\<close> in both.
\<close>

definition salary_key :: "entry \<Rightarrow> pyval" where
  "salary_key v = dict_get v (str ''salary'') (PInt 0)"

fun insert_desc :: "entry \<Rightarrow> entry list \<Rightarrow> error + entry list" where
  "insert_desc x [] = Inr [x]"
| "insert_desc x (y # ys) =
     (case py_lt (salary_key x) (salary_key y) of
        Inl e \<Rightarrow> Inl e
      | Inr smaller \<Rightarrow>
          if smaller then (case insert_desc x ys of Inl e \<Rightarrow> Inl e | Inr zs \<Rightarrow> Inr (y # zs))
          else Inr (x # y # ys))"

fun sort_vacancies :: "entry list \<Rightarrow> error + entry list" where
  "sort_vacancies [] = Inr []"
| "sort_vacancies (x # xs) =
     (case sort_vacancies xs of Inl e \<Rightarrow> Inl e | Inr ys \<Rightarrow> insert_desc x ys)"

text \<open>
  \<open>get_top_vacancies\<close>: the slice \<open>vacancies[:top_n]\<close> for an \<open>int\<close>; a negative
  bound counts from the end.
\<close>

definition get_top_vacancies :: "'a list \<Rightarrow> int \<Rightarrow> 'a list" where
  "get_top_vacancies vacancies top_n =
     (if 0 \<le> top_n then take (nat top_n) vacancies
      else take (nat (int (length vacancies) + top_n)) vacancies)"

text \<open>
  The prompt for \<open>top_n\<close> in \<open>user_interaction\<close>: each line typed is converted with
  \<open>int\<close>; a \<open>ValueError\<close>, from \<open>int\<close> or from the explicit check
  \<open>top_n <= 0\<close>, is caught and the prompt repeats. \<open>None\<close>: the lines given ran out
  before a valid one.
\<close>

fun prompt_top_n :: "(pystr \<Rightarrow> int option) \<Rightarrow> pystr list \<Rightarrow> int option" where
  "prompt_top_n int_of [] = None"
| "prompt_top_n int_of (line # rest) =
     (case int_of line of
        None \<Rightarrow> prompt_top_n int_of rest
      | Some top_n \<Rightarrow> if top_n \<le> 0 then prompt_top_n int_of rest else Some top_n)"

subsection \<open>The two built-ins on ASCII\<close>

definition lower_ascii :: "pystr \<Rightarrow> pystr" where
  "lower_ascii s = map (\<lambda>c. if 65 \<le> c \<and> c \<le> 90 then c + 32 else c) s"

definition is_blank :: "nat \<Rightarrow> bool" where
  "is_blank c = (c = 32 \<or> (9 \<le> c \<and> c \<le> 13))"

fun digits_int :: "int \<Rightarrow> pystr \<Rightarrow> int option" where
  "digits_int acc [] = Some acc"
| "digits_int acc (c # s) =
     (if 48 \<le> c \<and> c \<le> 57 then digits_int (10 * acc + (int c - 48)) s else None)"

text \<open>
  Blanks around, an optional sign, then one decimal digit or more. (\<open>int\<close> also accepts
  single underscores between digits; such strings are not used here.)
\<close>

definition int_ascii :: "pystr \<Rightarrow> int option" where
  "int_ascii s =
     (case rev (dropWhile is_blank (rev (dropWhile is_blank s))) of
        [] \<Rightarrow> None
      | c # t \<Rightarrow>
          if c = 45 then (if t = [] then None else map_option uminus (digits_int 0 t))
          else if c = 43 then (if t = [] then None else digits_int 0 t)
          else digits_int 0 (c # t))"

section \<open>Example data\<close>

text \<open>An entry with an identifier, a salary and a description, for the concrete cases.\<close>

definition ex_entry :: "string \<Rightarrow> pyval \<Rightarrow> string \<Rightarrow> entry" where
  "ex_entry i s d =
     [str ''id'' \<mapsto> PStr (str i), str ''salary'' \<mapsto> s, str ''description'' \<mapsto> PStr (str d)]"

text \<open>A record, as \<open>Vacancies("dev", "l", 5, "", "a")\<close> constructs it.\<close>

definition ex_vacancy :: Vacancies where
  "ex_vacancy = \<lparr>name = PStr (str ''dev''), link = PStr (str ''l''), salary = PInt 5,
     description = PStr [], id' = PStr (str ''a'')\<rparr>"

section \<open>Properties of \<open>Vacancies\<close>\<close>

lemma validation_data_int:
  "validation_data (PInt k) = (if k < 0 then Inl ValueError else Inr (PInt k))"
  by (simp add: validation_data_def)

lemma validation_data_float:
  "validation_data (PFloat x) = (if x < 0 then Inl ValueError else Inr (PFloat x))"
  by (simp add: validation_data_def)

lemma validation_data_bool: "validation_data (PBool b) = Inr (PBool b)"
  by (simp add: validation_data_def)

lemma validation_data_str:
  "validation_data (PStr s) = (if s = [] then Inr (PStr salary_not_specified) else Inl ValueError)"
  by (auto simp add: validation_data_def)

lemma validation_data_none: "validation_data PNone = Inr (PStr salary_not_specified)"
  by (simp add: validation_data_def)

text \<open>
  C9. Constructing a record fails with \<open>ValueError\<close> when the salary is a negative
  \<open>int\<close> or \<open>float\<close>, or a non-empty string (neither a number nor one of the two
  "not given" arguments); it succeeds and keeps the given salary when the salary is a
  non-negative \<open>int\<close> or \<open>float\<close>, or a \<open>bool\<close>.
\<close>

theorem init_validates_salary:
  "Vacancies_init n l (PInt k) d i =
     (if k < 0 then Inl ValueError
      else Inr \<lparr>name = n, link = l, salary = PInt k, description = d, id' = i\<rparr>)
   \<and> Vacancies_init n l (PFloat x) d i =
     (if x < 0 then Inl ValueError
      else Inr \<lparr>name = n, link = l, salary = PFloat x, description = d, id' = i\<rparr>)
   \<and> Vacancies_init n l (PBool b) d i =
       Inr \<lparr>name = n, link = l, salary = PBool b, description = d, id' = i\<rparr>
   \<and> (s \<noteq> [] \<longrightarrow> Vacancies_init n l (PStr s) d i = Inl ValueError)"
  by (simp add: Vacancies_init_def validation_data_int validation_data_float
      validation_data_bool validation_data_str)

theorem init_validates_salary_witness:
  "Vacancies_init (PStr (str ''dev'')) PNone (PInt (- 5)) (PStr []) PNone = Inl ValueError
   \<and> Vacancies_init (PStr (str ''dev'')) PNone (PFloat 2) (PStr []) PNone =
       Inr \<lparr>name = PStr (str ''dev''), link = PNone, salary = PFloat 2,
            description = PStr [], id' = PNone\<rparr>
   \<and> str ''high'' \<noteq> []
   \<and> Vacancies_init (PStr (str ''dev'')) PNone (PStr (str ''high'')) (PStr []) PNone =
       Inl ValueError"
  using init_validates_salary [of "PStr (str ''dev'')" PNone "- 5" "PStr []" PNone 2 True
      "str ''high''"]
  by (simp add: str_def)

text \<open>
  C10. Constructing a record with salary \<open>None\<close> or the empty string succeeds, and the
  salary of the record is the "not given" string, which is not a number.
\<close>

theorem init_salary_not_given:
  "Vacancies_init n l PNone d i =
     Inr \<lparr>name = n, link = l, salary = PStr salary_not_specified, description = d, id' = i\<rparr>
   \<and> Vacancies_init n l (PStr []) d i =
     Inr \<lparr>name = n, link = l, salary = PStr salary_not_specified, description = d, id' = i\<rparr>
   \<and> num_val (PStr salary_not_specified) = None"
  by (simp add: Vacancies_init_def validation_data_none validation_data_str)

subsection \<open>\<open>cast_to_object_list\<close>\<close>

lemma cast_loop_all2:
  "cast_loop acc xs = Inr objs \<Longrightarrow>
   \<exists>new. objs = acc @ new \<and>
     list_all2 (\<lambda>v obj.
        Vacancies_init (dict_get v (str ''name'') PNone) (dict_get v (str ''link'') PNone)
          (dict_get v (str ''salary'') (PInt 0)) (dict_get v (str ''description'') (PStr []))
          (dict_get v (str ''id'') PNone) = Inr obj) xs new"
proof (induction xs arbitrary: acc objs)
  case Nil
  then show ?case by simp
next
  case (Cons v xs)
  then show ?case
    by (fastforce split: sum.splits simp add: list_all2_Cons1)
qed

lemma init_salary_field:
  "Vacancies_init n l s d i = Inr obj \<Longrightarrow> validation_data s = Inr (salary obj) \<and> description obj = d"
  by (auto simp add: Vacancies_init_def split: sum.splits)

text \<open>
  C2, as the code has it. An item without a salary field becomes a record whose salary
  is the number \<open>0\<close>, the default written in \<open>vacancy.get("salary", 0)\<close>; the "not
  given" string is the salary of an item whose salary field is present and \<open>None\<close>. An
  item without a description becomes a record whose description is the empty string.
  Both hold for each item of a list that \<open>cast_to_object_list\<close> converts, and an item
  without salary never makes the conversion fail.
\<close>

theorem cast_missing_fields:
  "(item (str ''salary'') = None \<longrightarrow>
      cast_to_object_list [item] =
        Inr [\<lparr>name = dict_get item (str ''name'') PNone,
              link = dict_get item (str ''link'') PNone,
              salary = PInt 0,
              description = dict_get item (str ''description'') (PStr []),
              id' = dict_get item (str ''id'') PNone\<rparr>])
   \<and> (cast_to_object_list items = Inr objs \<longrightarrow>
        length objs = length items
        \<and> (\<forall>j < length items.
              ((items ! j) (str ''salary'') = None \<longrightarrow> salary (objs ! j) = PInt 0)
              \<and> ((items ! j) (str ''salary'') = Some PNone \<longrightarrow>
                    salary (objs ! j) = PStr salary_not_specified)
              \<and> ((items ! j) (str ''description'') = None \<longrightarrow> description (objs ! j) = PStr [])))"
proof -
  have one: "item (str ''salary'') = None \<Longrightarrow>
      cast_to_object_list [item] =
        Inr [\<lparr>name = dict_get item (str ''name'') PNone,
              link = dict_get item (str ''link'') PNone,
              salary = PInt 0,
              description = dict_get item (str ''description'') (PStr []),
              id' = dict_get item (str ''id'') PNone\<rparr>]"
    by (simp add: cast_to_object_list_def dict_get_def Vacancies_init_def validation_data_int)
  have many: "length objs = length items
        \<and> (\<forall>j < length items.
              ((items ! j) (str ''salary'') = None \<longrightarrow> salary (objs ! j) = PInt 0)
              \<and> ((items ! j) (str ''salary'') = Some PNone \<longrightarrow>
                    salary (objs ! j) = PStr salary_not_specified)
              \<and> ((items ! j) (str ''description'') = None \<longrightarrow> description (objs ! j) = PStr []))"
    if ok: "cast_to_object_list items = Inr objs"
  proof -
    from ok have all2: "list_all2 (\<lambda>v obj.
        Vacancies_init (dict_get v (str ''name'') PNone) (dict_get v (str ''link'') PNone)
          (dict_get v (str ''salary'') (PInt 0)) (dict_get v (str ''description'') (PStr []))
          (dict_get v (str ''id'') PNone) = Inr obj) items objs"
      using cast_loop_all2 [of "[]" items objs] by (simp add: cast_to_object_list_def)
    then have len: "length objs = length items"
      by (simp add: list_all2_lengthD)
    have "((items ! j) (str ''salary'') = None \<longrightarrow> salary (objs ! j) = PInt 0)
              \<and> ((items ! j) (str ''salary'') = Some PNone \<longrightarrow>
                    salary (objs ! j) = PStr salary_not_specified)
              \<and> ((items ! j) (str ''description'') = None \<longrightarrow> description (objs ! j) = PStr [])"
      if "j < length items" for j
    proof -
      have "Vacancies_init (dict_get (items ! j) (str ''name'') PNone)
          (dict_get (items ! j) (str ''link'') PNone)
          (dict_get (items ! j) (str ''salary'') (PInt 0))
          (dict_get (items ! j) (str ''description'') (PStr []))
          (dict_get (items ! j) (str ''id'') PNone) = Inr (objs ! j)"
        using list_all2_nthD [OF all2 that] by simp
      from init_salary_field [OF this] show ?thesis
        by (auto simp add: dict_get_def validation_data_int validation_data_none)
    qed
    with len show ?thesis by blast
  qed
  from one many show ?thesis by blast
qed

theorem cast_missing_fields_witness:
  "(Map.empty :: entry) (str ''salary'') = None
   \<and> (Map.empty :: entry) (str ''description'') = None
   \<and> [str ''salary'' \<mapsto> PNone] (str ''salary'') = Some PNone
   \<and> cast_to_object_list [Map.empty] =
       Inr [\<lparr>name = PNone, link = PNone, salary = PInt 0, description = PStr [], id' = PNone\<rparr>]
   \<and> cast_to_object_list [Map.empty, [str ''salary'' \<mapsto> PNone]] =
       Inr [\<lparr>name = PNone, link = PNone, salary = PInt 0, description = PStr [], id' = PNone\<rparr>,
            \<lparr>name = PNone, link = PNone, salary = PStr salary_not_specified,
              description = PStr [], id' = PNone\<rparr>]"
proof -
  have a: "cast_to_object_list [Map.empty, [str ''salary'' \<mapsto> PNone]] =
       Inr [\<lparr>name = PNone, link = PNone, salary = PInt 0, description = PStr [], id' = PNone\<rparr>,
            \<lparr>name = PNone, link = PNone, salary = PStr salary_not_specified,
              description = PStr [], id' = PNone\<rparr>]"
    by (simp add: cast_to_object_list_def dict_get_def Vacancies_init_def validation_data_int
        validation_data_none str_def)
  show ?thesis
    using a cast_missing_fields [of Map.empty "[Map.empty, [str ''salary'' \<mapsto> PNone]]"
       "[\<lparr>name = PNone, link = PNone, salary = PInt 0, description = PStr [], id' = PNone\<rparr>,
         \<lparr>name = PNone, link = PNone, salary = PStr salary_not_specified,
           description = PStr [], id' = PNone\<rparr>]"]
    by (simp add: dict_get_def)
qed

text \<open>
  The claim as stated fails: the record made from an item without salary has the salary
  \<open>0\<close>, not the "not given" string.
\<close>

theorem cast_missing_salary_counterexample:
  "cast_to_object_list [[str ''name'' \<mapsto> PStr (str ''dev'')]] =
     Inr [\<lparr>name = PStr (str ''dev''), link = PNone, salary = PInt 0, description = PStr [], id' = PNone\<rparr>]
   \<and> PInt 0 \<noteq> PStr salary_not_specified"
  by (simp add: cast_to_object_list_def dict_get_def Vacancies_init_def validation_data_int str_def)

section \<open>Python equality on the modelled values\<close>

lemma py_eq_iff:
  "py_eq a b \<longleftrightarrow> a = b \<or> (\<exists>x. num_val a = Some x \<and> num_val b = Some x)"
  by (cases a; cases b) auto

lemma py_eq_refl: "py_eq a a"
  by (simp add: py_eq_iff)

lemma py_eq_str: "py_eq a (PStr s) \<longleftrightarrow> a = PStr s"
  by (cases a) auto

lemma py_eq_none: "py_eq a PNone \<longleftrightarrow> a = PNone"
  by (cases a) auto

section \<open>The loops as filters\<close>

lemma matches_iff:
  "matches v c \<longleftrightarrow> (\<forall>(k, x) \<in> set c. py_eq (dict_get v k PNone) x)"
  by (induction v c rule: matches.induct) auto

lemma get_vacancies_loop_filter:
  "get_vacancies_loop c acc xs = acc @ filter (\<lambda>v. matches v c) xs"
  by (induction xs arbitrary: acc) auto

lemma get_vacancies_filter:
  "get_vacancies file c = filter (\<lambda>v. \<forall>(k, x) \<in> set c. py_eq (dict_get v k PNone) x) file"
  by (simp add: get_vacancies_def get_vacancies_loop_filter matches_iff)

lemma delete_loop_filter:
  "delete_loop i acc xs = acc @ filter (\<lambda>v. \<not> py_eq (dict_get v (str ''id'') PNone) i) xs"
  by (induction xs arbitrary: acc) auto

lemma delete_vacancy_filter:
  "delete_vacancy file i = filter (\<lambda>v. \<not> py_eq (dict_get v (str ''id'') PNone) i) file"
  by (simp add: delete_vacancy_def delete_loop_filter)

lemma range_loop_filter:
  "range_loop a b acc xs = acc @ filter (in_salary_range a b) xs"
  by (induction xs arbitrary: acc) auto

lemma filter_loop_no_words: "filter_loop lower [] acc xs = Inr acc"
  by (induction xs arbitrary: acc) auto

section \<open>Properties of \<open>JSONSaver\<close>\<close>

text \<open>
  C8. \<open>delete_vacancy\<close> leaves in the file exactly the entries whose \<open>id\<close> is not equal
  (\<open>==\<close>, a missing \<open>id\<close> reading as \<open>None\<close>) to the identifier given, in their stored
  order; when no entry has that \<open>id\<close> the file keeps its content, and nothing is raised.
  For a text identifier the entries removed are those whose \<open>id\<close> is that very string.
\<close>

theorem delete_vacancy_removes:
  "delete_vacancy file vacancy_id =
     filter (\<lambda>v. \<not> py_eq (dict_get v (str ''id'') PNone) vacancy_id) file
   \<and> ((\<forall>v \<in> set file. \<not> py_eq (dict_get v (str ''id'') PNone) vacancy_id) \<longrightarrow>
        delete_vacancy file vacancy_id = file)
   \<and> delete_vacancy file (PStr s) = filter (\<lambda>v. v (str ''id'') \<noteq> Some (PStr s)) file"
proof -
  have "(\<lambda>v. \<not> py_eq (dict_get v (str ''id'') PNone) (PStr s)) =
        (\<lambda>v::entry. v (str ''id'') \<noteq> Some (PStr s))"
    by (auto simp add: fun_eq_iff py_eq_str dict_get_def split: option.splits)
  then show ?thesis
    by (simp add: delete_vacancy_filter)
qed

theorem delete_vacancy_removes_witness:
  "\<not> py_eq (dict_get (ex_entry ''a'' (PInt 1) ''x'') (str ''id'') PNone) (PStr (str ''c''))
   \<and> \<not> py_eq (dict_get (ex_entry ''b'' (PInt 2) ''y'') (str ''id'') PNone) (PStr (str ''c''))
   \<and> delete_vacancy [ex_entry ''a'' (PInt 1) ''x'', ex_entry ''b'' (PInt 2) ''y'']
        (PStr (str ''c'')) =
       [ex_entry ''a'' (PInt 1) ''x'', ex_entry ''b'' (PInt 2) ''y'']
   \<and> delete_vacancy
        [ex_entry ''a'' (PInt 1) ''x'', ex_entry ''b'' (PInt 2) ''y'', ex_entry ''a'' (PInt 3) ''z'']
        (PStr (str ''a'')) =
       [ex_entry ''b'' (PInt 2) ''y'']"
  using delete_vacancy_removes
      [of "[ex_entry ''a'' (PInt 1) ''x'', ex_entry ''b'' (PInt 2) ''y'']" "PStr (str ''c'')"]
    delete_vacancy_removes
      [of "[ex_entry ''a'' (PInt 1) ''x'', ex_entry ''b'' (PInt 2) ''y'',
            ex_entry ''a'' (PInt 3) ''z'']" "PStr (str ''a'')"]
  by (simp add: ex_entry_def dict_get_def str_def)

text \<open>
  C7, as the code has it. \<open>get_vacancies\<close> returns, in stored order, exactly the entries
  in which every key of the criteria has a value equal (\<open>==\<close>, a missing field reading
  as \<open>None\<close>) to the expected one; empty criteria match every entry. The equality is
  Python's: a string equals only the same string (no substring match, no conversion
  between text and numbers), while numbers of the types \<open>bool\<close>, \<open>int\<close> and
  \<open>float\<close> are equal when their values are.
\<close>

theorem get_vacancies_exact:
  "get_vacancies file criteria =
     filter (\<lambda>v. \<forall>(key, val) \<in> set criteria. py_eq (dict_get v key PNone) val) file
   \<and> get_vacancies file [] = file
   \<and> (py_eq a b \<longleftrightarrow> a = b \<or> (\<exists>x. num_val a = Some x \<and> num_val b = Some x))
   \<and> (py_eq a (PStr s) \<longleftrightarrow> a = PStr s)"
  using py_eq_iff [of a b] py_eq_str [of a s]
  by (simp add: get_vacancies_filter)

theorem get_vacancies_exact_witness:
  "\<not> py_eq (dict_get (ex_entry ''ab'' (PInt 1) ''x'') (str ''id'') PNone) (PStr (str ''a''))
   \<and> py_eq (dict_get (ex_entry ''a'' (PInt 2) ''y'') (str ''id'') PNone) (PStr (str ''a''))
   \<and> get_vacancies [ex_entry ''ab'' (PInt 1) ''x'', ex_entry ''a'' (PInt 2) ''y'']
        [(str ''id'', PStr (str ''a''))] = [ex_entry ''a'' (PInt 2) ''y'']
   \<and> get_vacancies [ex_entry ''ab'' (PInt 1) ''x'', ex_entry ''a'' (PInt 2) ''y''] [] =
        [ex_entry ''ab'' (PInt 1) ''x'', ex_entry ''a'' (PInt 2) ''y'']"
  using get_vacancies_exact [of "[ex_entry ''ab'' (PInt 1) ''x'', ex_entry ''a'' (PInt 2) ''y'']"
      "[(str ''id'', PStr (str ''a''))]" PNone PNone "[]"]
  by (simp add: ex_entry_def dict_get_def str_def)

text \<open>
  The claim as stated fails: the criteria \<open>{"salary": 100000.0}\<close> select an entry
  whose salary is the \<open>int\<close> \<open>100000\<close>, a value of another type.
\<close>

theorem get_vacancies_exact_counterexample:
  "get_vacancies [ex_entry ''a'' (PInt 100000) ''x''] [(str ''salary'', PFloat 100000)] =
     [ex_entry ''a'' (PInt 100000) ''x'']
   \<and> dict_get (ex_entry ''a'' (PInt 100000) ''x'') (str ''salary'') PNone \<noteq> PFloat 100000"
  by (simp add: get_vacancies_def ex_entry_def dict_get_def str_def)

text \<open>
  C6, as the code has it. After \<open>add_vacancy\<close> of a record, \<open>get_vacancies\<close> with
  the criteria \<open>{"id": r.id}\<close> returns the entries already stored whose \<open>id\<close> equals
  that of the record, followed by the serialized record; it returns the serialized
  record alone when no stored entry has an equal \<open>id\<close>.
\<close>

theorem add_then_get:
  "get_vacancies (add_vacancy file r) [(str ''id'', id' r)] =
     get_vacancies file [(str ''id'', id' r)] @ [vacancy_dict r]
   \<and> ((\<forall>v \<in> set file. \<not> py_eq (dict_get v (str ''id'') PNone) (id' r)) \<longrightarrow>
        get_vacancies (add_vacancy file r) [(str ''id'', id' r)] = [vacancy_dict r])"
proof -
  have "dict_get (vacancy_dict r) (str ''id'') PNone = id' r"
    by (simp add: vacancy_dict_def dict_get_def)
  then show ?thesis
    by (simp add: get_vacancies_filter add_vacancy_def py_eq_refl)
qed

theorem add_then_get_witness:
  "\<not> py_eq (dict_get (ex_entry ''b'' (PInt 1) ''x'') (str ''id'') PNone) (id' ex_vacancy)
   \<and> get_vacancies (add_vacancy [ex_entry ''b'' (PInt 1) ''x''] ex_vacancy)
        [(str ''id'', id' ex_vacancy)] = [vacancy_dict ex_vacancy]"
proof -
  have h1: "\<not> py_eq (dict_get (ex_entry ''b'' (PInt 1) ''x'') (str ''id'') PNone) (id' ex_vacancy)"
    by (simp add: ex_entry_def ex_vacancy_def dict_get_def str_def)
  then have h: "\<forall>v \<in> set [ex_entry ''b'' (PInt 1) ''x''].
             \<not> py_eq (dict_get v (str ''id'') PNone) (id' ex_vacancy)"
    by simp
  with add_then_get [of "[ex_entry ''b'' (PInt 1) ''x'']" ex_vacancy]
  have "get_vacancies (add_vacancy [ex_entry ''b'' (PInt 1) ''x''] ex_vacancy)
        [(str ''id'', id' ex_vacancy)] = [vacancy_dict ex_vacancy]"
    by blast
  with h1 show ?thesis
    by blast
qed

text \<open>
  The claim as stated fails on a store that already holds the record: the query then
  returns two entries.
\<close>

theorem add_then_get_counterexample:
  "Vacancies_init (PStr (str ''dev'')) (PStr (str ''l'')) (PInt 5) (PStr []) (PStr (str ''a'')) =
     Inr ex_vacancy
   \<and> get_vacancies (add_vacancy [vacancy_dict ex_vacancy] ex_vacancy)
        [(str ''id'', id' ex_vacancy)] =
       [vacancy_dict ex_vacancy, vacancy_dict ex_vacancy]"
  by (simp add: get_vacancies_def add_vacancy_def vacancy_dict_def ex_vacancy_def dict_get_def
      Vacancies_init_def validation_data_int)

section \<open>Properties of the pipeline\<close>

text \<open>
  C1, the case of no keywords. With an empty list of keywords \<open>any\<close> is false for every
  vacancy, so \<open>filter_vacancies\<close> returns the empty list whatever the vacancies are: it
  does not return the entries unchanged.
\<close>

theorem filter_vacancies_empty_keywords:
  "filter_vacancies lower vacancies [] = Inr []"
  by (simp add: filter_vacancies_def filter_loop_no_words)

text \<open>
  With keywords, and descriptions that are strings, \<open>filter_vacancies\<close> keeps exactly
  the vacancies whose lowered description contains a lowered keyword.
\<close>

lemma starts_with_prefix: "starts_with w s \<longleftrightarrow> prefix w s"
  by (induction w s rule: starts_with.induct) auto

lemma str_in_sublist: "str_in w s \<longleftrightarrow> sublist w s"
  by (induction s) (auto simp add: starts_with_prefix sublist_Cons_right)

lemma any_word_str:
  "dict_get v (str ''description'') (PStr []) = PStr d \<Longrightarrow>
   any_word lower v ws = Inr (\<exists>w \<in> set ws. sublist (lower w) (lower d))"
  by (induction ws) (auto simp add: str_in_sublist)

lemma any_word_not_str:
  "\<forall>d. dict_get v (str ''description'') (PStr []) \<noteq> PStr d \<Longrightarrow> ws \<noteq> [] \<Longrightarrow>
   any_word lower v ws = Inl AttributeError"
  by (cases ws) (auto split: pyval.splits)

lemma filter_loop_keywords:
  "\<forall>v \<in> set xs. \<exists>d. dict_get v (str ''description'') (PStr []) = PStr d \<Longrightarrow>
   filter_loop lower ws acc xs =
     Inr (acc @ filter (\<lambda>v. \<exists>w \<in> set ws. \<exists>d.
            dict_get v (str ''description'') (PStr []) = PStr d \<and> sublist (lower w) (lower d)) xs)"
proof (induction xs arbitrary: acc)
  case Nil
  then show ?case by simp
next
  case (Cons v xs)
  then obtain d where d: "dict_get v (str ''description'') (PStr []) = PStr d"
    by auto
  from Cons have "filter_loop lower ws acc' xs =
     Inr (acc' @ filter (\<lambda>v. \<exists>w \<in> set ws. \<exists>d.
            dict_get v (str ''description'') (PStr []) = PStr d \<and> sublist (lower w) (lower d)) xs)"
    for acc' by simp
  with d show ?case
    by (simp add: any_word_str)
qed

lemma filter_vacancies_keywords:
  "\<forall>v \<in> set vacancies. \<exists>d. dict_get v (str ''description'') (PStr []) = PStr d \<Longrightarrow>
   filter_vacancies lower vacancies filter_words =
     Inr (filter (\<lambda>v. \<exists>w \<in> set filter_words. \<exists>d.
            dict_get v (str ''description'') (PStr []) = PStr d \<and> sublist (lower w) (lower d))
          vacancies)"
  by (simp add: filter_vacancies_def filter_loop_keywords)

lemma filter_vacancies_example:
  "filter_vacancies lower_ascii
     [ex_entry ''a'' (PInt 1) ''Python developer'', ex_entry ''b'' (PInt 2) ''needs Go'']
     [str ''python''] = Inr [ex_entry ''a'' (PInt 1) ''Python developer'']"
  by (simp add: filter_vacancies_def ex_entry_def dict_get_def lower_ascii_def str_def)

text \<open>Reading the range \<open>"<min>-<max>"\<close>.\<close>

lemma split_hyphen_no_hyphen: "45 \<notin> set s \<Longrightarrow> split_hyphen s = [s]"
  by (induction s) auto

lemma split_hyphen_first: "45 \<notin> set a \<Longrightarrow> split_hyphen (a @ 45 # b) = a # split_hyphen b"
  by (induction a) auto

lemma parse_range_two:
  "45 \<notin> set a \<Longrightarrow> 45 \<notin> set b \<Longrightarrow> int_of a = Some lo \<Longrightarrow> int_of b = Some hi \<Longrightarrow>
   parse_range int_of (a @ 45 # b) = Inr (lo, hi)"
  by (simp add: parse_range_def split_hyphen_first split_hyphen_no_hyphen)

lemma in_salary_range_cases:
  "in_salary_range lo hi v =
     (case dict_get v (str ''salary'') PNone of
        PInt k \<Rightarrow> lo \<le> k \<and> k \<le> hi
      | PBool b \<Rightarrow> lo \<le> (if b then 1 else 0) \<and> (if b then 1 else 0) \<le> hi
      | _ \<Rightarrow> False)"
  by (simp add: in_salary_range_def split: pyval.splits)

text \<open>
  C5, as the code has it. Without a range (\<open>None\<close> or the empty string)
  \<open>get_vacancies_by_salary\<close> returns the vacancies as they are. For a range
  \<open>a-b\<close> whose two parts \<open>int\<close> reads as \<open>min_salary\<close> and \<open>max_salary\<close> it keeps,
  in order, exactly the entries whose salary is an \<open>int\<close> (a \<open>bool\<close> counting as
  \<open>0\<close> or \<open>1\<close>) with \<open>min_salary \<le> salary \<le> max_salary\<close>; an entry whose salary
  is a \<open>float\<close>, a string such as the "not given" one, \<open>None\<close> or missing is dropped.
\<close>

theorem salary_range_filter:
  "get_vacancies_by_salary int_of vacancies None = Inr vacancies
   \<and> get_vacancies_by_salary int_of vacancies (Some []) = Inr vacancies
   \<and> (45 \<notin> set a \<and> 45 \<notin> set b \<and> int_of a = Some min_salary \<and> int_of b = Some max_salary \<longrightarrow>
        get_vacancies_by_salary int_of vacancies (Some (a @ 45 # b)) =
          Inr (filter (\<lambda>v. case dict_get v (str ''salary'') PNone of
                          PInt k \<Rightarrow> min_salary \<le> k \<and> k \<le> max_salary
                        | PBool t \<Rightarrow> min_salary \<le> (if t then 1 else 0)
                                      \<and> (if t then 1 else 0) \<le> max_salary
                        | _ \<Rightarrow> False) vacancies))"
proof -
  have "in_salary_range min_salary max_salary =
        (\<lambda>v. case dict_get v (str ''salary'') PNone of
                          PInt k \<Rightarrow> min_salary \<le> k \<and> k \<le> max_salary
                        | PBool t \<Rightarrow> min_salary \<le> (if t then 1 else 0)
                                      \<and> (if t then 1 else 0) \<le> max_salary
                        | _ \<Rightarrow> False)"
    by (rule ext) (rule in_salary_range_cases)
  then show ?thesis
    by (simp add: get_vacancies_by_salary_def parse_range_two range_loop_filter)
qed

lemma int_ascii_examples:
  "int_ascii (str ''100000'') = Some 100000"
  "int_ascii (str ''150000'') = Some 150000"
  by (simp_all add: int_ascii_def is_blank_def str_def)

theorem salary_range_filter_witness:
  "(45 \<notin> set (str ''100000'') \<and> 45 \<notin> set (str ''150000'')
    \<and> int_ascii (str ''100000'') = Some 100000 \<and> int_ascii (str ''150000'') = Some 150000)
   \<and> get_vacancies_by_salary int_ascii
        [ex_entry ''a'' (PInt 100000) ''x'', ex_entry ''b'' (PInt 99999) ''x'',
         ex_entry ''c'' (PInt 150000) ''x'', ex_entry ''d'' (PInt 150001) ''x'',
         ex_entry ''e'' (PStr salary_not_specified) ''x'']
        (Some (str ''100000-150000'')) =
       Inr [ex_entry ''a'' (PInt 100000) ''x'', ex_entry ''c'' (PInt 150000) ''x'']"
proof -
  have h: "45 \<notin> set (str ''100000'') \<and> 45 \<notin> set (str ''150000'')
    \<and> int_ascii (str ''100000'') = Some 100000 \<and> int_ascii (str ''150000'') = Some 150000"
    by (simp add: int_ascii_examples) (simp add: str_def)
  have s: "str ''100000-150000'' = str ''100000'' @ 45 # str ''150000''"
    by (simp add: str_def)
  have d: "\<And>i s d. dict_get (ex_entry i s d) (str ''salary'') PNone = s"
    by (simp add: ex_entry_def dict_get_def str_def)
  show ?thesis
    using h salary_range_filter [of int_ascii _ "str ''100000''" "str ''150000''" 100000 150000]
    by (simp add: s d)
qed

text \<open>
  The claim as stated fails: the salary \<open>120000.0\<close>, a number that the constructor
  accepts and that lies in the range, is dropped.
\<close>

theorem salary_range_filter_counterexample:
  "get_vacancies_by_salary int_ascii [ex_entry ''a'' (PFloat 120000) ''x'']
     (Some (str ''100000-150000'')) = Inr []
   \<and> validation_data (PFloat 120000) = Inr (PFloat 120000)"
  by (simp add: get_vacancies_by_salary_def parse_range_def int_ascii_def is_blank_def
      in_salary_range_def ex_entry_def dict_get_def str_def validation_data_float)

text \<open>
  C4, as the code has it. \<open>get_top_vacancies\<close> checks nothing and raises nothing: for
  a positive \<open>top_n\<close> it returns the first \<open>min(top_n, len(vacancies))\<close> vacancies, for
  \<open>0\<close> the empty list, and for a negative \<open>top_n\<close> all but the last \<open>-top_n\<close>. The
  check that \<open>top_n\<close> is positive is made by the prompt, which asks again instead of
  failing, so the pipeline receives a positive number.
\<close>

theorem top_vacancies_prefix:
  "(0 < top_n \<longrightarrow>
      get_top_vacancies vacancies top_n = take (nat top_n) vacancies
      \<and> length (get_top_vacancies vacancies top_n) = min (nat top_n) (length vacancies))
   \<and> (top_n = 0 \<longrightarrow> get_top_vacancies vacancies top_n = [])
   \<and> (top_n < 0 \<longrightarrow>
      get_top_vacancies vacancies top_n = take (length vacancies - nat (- top_n)) vacancies)
   \<and> (prompt_top_n int_of lines = Some m \<longrightarrow> 0 < m)"
proof -
  have "prompt_top_n int_of lines = Some m \<Longrightarrow> 0 < m"
    by (induction lines) (auto split: option.splits if_splits)
  moreover have "top_n < 0 \<Longrightarrow> nat (int (length vacancies) + top_n) = length vacancies - nat (- top_n)"
    by linarith
  ultimately show ?thesis
    by (auto simp add: get_top_vacancies_def)
qed

theorem top_vacancies_prefix_witness:
  "(0::int) < 2 \<and> (0::int) < 10
   \<and> get_top_vacancies [PInt 1, PInt 2, PInt 3, PInt 4, PInt 5] 2 = [PInt 1, PInt 2]
   \<and> get_top_vacancies [PInt 1, PInt 2, PInt 3] 10 = [PInt 1, PInt 2, PInt 3]
   \<and> (- 2::int) < 0 \<and> get_top_vacancies [PInt 1, PInt 2, PInt 3] (- 2) = [PInt 1]
   \<and> prompt_top_n int_ascii [str ''0'', str ''two'', str ''3''] = Some 3"
  using top_vacancies_prefix [of 2 "[PInt 1, PInt 2, PInt 3, PInt 4, PInt 5]" int_ascii "[str ''0'', str ''two'', str ''3'']" 3]
    top_vacancies_prefix [of 10 "[PInt 1, PInt 2, PInt 3]"]
    top_vacancies_prefix [of "- 2" "[PInt 1, PInt 2, PInt 3]"]
  by (simp add: int_ascii_def is_blank_def str_def)

text \<open>The claim as stated fails: with \<open>0\<close> and \<open>-1\<close> a list is returned.\<close>

theorem top_vacancies_counterexample:
  "get_top_vacancies [PInt 1, PInt 2, PInt 3] 0 = []
   \<and> get_top_vacancies [PInt 1, PInt 2, PInt 3] (- 1) = [PInt 1, PInt 2]"
  by (simp add: get_top_vacancies_def)

subsection \<open>\<open>sort_vacancies\<close>\<close>

text \<open>
  On salaries that are all numbers \<open>sort_vacancies\<close> is the stable sort into
  descending order.
\<close>

lemma py_lt_num:
  "num_val a = Some x \<Longrightarrow> num_val b = Some y \<Longrightarrow> py_lt a b = Inr (x < y)"
  by (cases a; cases b) auto

lemma py_lt_Inr:
  "py_lt a b = Inr r \<Longrightarrow>
   (num_val a \<noteq> None \<and> num_val b \<noteq> None) \<or> (\<exists>s t. a = PStr s \<and> b = PStr t)"
  by (cases a; cases b) auto

lemma py_lt_Inl: "py_lt a b = Inl e \<Longrightarrow> e = TypeError"
  by (cases a; cases b) auto

lemma insert_desc_Inl: "insert_desc x ys = Inl e \<Longrightarrow> e = TypeError"
  by (induction ys) (auto split: sum.splits if_splits dest: py_lt_Inl)

lemma sort_vacancies_Inl: "sort_vacancies xs = Inl e \<Longrightarrow> e = TypeError"
  by (induction xs) (auto split: sum.splits dest: insert_desc_Inl)

lemma insert_desc_numeric:
  "\<forall>v \<in> set (x # ys). num_val (salary_key v) \<noteq> None \<Longrightarrow>
   insert_desc x ys = Inr (insort_key (\<lambda>v. - the (num_val (salary_key v))) x ys)"
proof (induction ys)
  case Nil
  then show ?case by simp
next
  case (Cons y ys)
  then obtain a b where "num_val (salary_key x) = Some a" "num_val (salary_key y) = Some b"
    by auto
  with Cons show ?case
    by (auto simp add: py_lt_num)
qed

lemma sort_vacancies_numeric:
  "\<forall>v \<in> set xs. num_val (salary_key v) \<noteq> None \<Longrightarrow>
   sort_vacancies xs = Inr (sort_key (\<lambda>v. - the (num_val (salary_key v))) xs)"
  by (induction xs) (simp_all add: insert_desc_numeric)

lemma sort_vacancies_numeric_stable:
  assumes "\<forall>v \<in> set xs. num_val (salary_key v) \<noteq> None"
  shows "\<exists>ys. sort_vacancies xs = Inr ys
      \<and> mset ys = mset xs
      \<and> sorted_wrt (\<lambda>v w. the (num_val (salary_key v)) \<ge> the (num_val (salary_key w))) ys
      \<and> (\<forall>k. filter (\<lambda>v. the (num_val (salary_key v)) = k) ys =
               filter (\<lambda>v. the (num_val (salary_key v)) = k) xs)"
proof -
  let ?f = "\<lambda>v. - the (num_val (salary_key v))"
  have "sorted (map ?f (sort_key ?f xs))"
    by (rule sorted_sort_key)
  then have s: "sorted_wrt (\<lambda>v w. the (num_val (salary_key v)) \<ge> the (num_val (salary_key w)))
      (sort_key ?f xs)"
    by (simp add: sorted_map)
  have "filter (\<lambda>v. the (num_val (salary_key v)) = k) (sort_key ?f xs) =
        filter (\<lambda>v. the (num_val (salary_key v)) = k) xs" for k
    using sort_key_stable [of ?f "- k" xs] by simp
  with s sort_vacancies_numeric [OF assms] show ?thesis
    by simp
qed

text \<open>
  A result is only returned for a list whose salaries \<open><\<close> can compare; a list that
  holds a number and a string as salaries raises \<open>TypeError\<close>.
\<close>

lemma insert_desc_Inr:
  "insert_desc x ys = Inr zs \<Longrightarrow>
   set zs = insert x (set ys) \<and> length zs = Suc (length ys)
   \<and> (ys \<noteq> [] \<longrightarrow> (\<exists>r. py_lt (salary_key x) (salary_key (hd ys)) = Inr r))"
proof (induction ys arbitrary: zs)
  case Nil
  then show ?case by auto
next
  case (Cons y ys)
  from Cons.prems obtain r where r: "py_lt (salary_key x) (salary_key y) = Inr r"
    by (cases "py_lt (salary_key x) (salary_key y)") auto
  show ?case
  proof (cases r)
    case True
    with r Cons.prems obtain zs' where zs': "insert_desc x ys = Inr zs'" "zs = y # zs'"
      by (cases "insert_desc x ys") auto
    from Cons.IH [OF zs'(1)] zs'(2) r show ?thesis by auto
  next
    case False
    with r Cons.prems have "zs = x # y # ys" by auto
    with r show ?thesis by auto
  qed
qed


lemma sort_vacancies_Inr:
  "sort_vacancies xs = Inr ys \<Longrightarrow>
   set ys = set xs \<and> length ys = length xs
   \<and> (2 \<le> length xs \<longrightarrow>
        (\<forall>v \<in> set xs. num_val (salary_key v) \<noteq> None)
        \<or> (\<forall>v \<in> set xs. \<exists>s. salary_key v = PStr s))"
proof (induction xs arbitrary: ys)
  case Nil
  then show ?case by simp
next
  case (Cons x xs)
  from Cons.prems obtain ys' where ys': "sort_vacancies xs = Inr ys'" "insert_desc x ys' = Inr ys"
    by (cases "sort_vacancies xs") auto
  note ih = Cons.IH [OF ys'(1)]
  note ins = insert_desc_Inr [OF ys'(2)]
  from ih ins have basic: "set ys = set (x # xs)" "length ys = length (x # xs)"
    by simp_all
  have hom: "(\<forall>v \<in> set (x # xs). num_val (salary_key v) \<noteq> None)
        \<or> (\<forall>v \<in> set (x # xs). \<exists>s. salary_key v = PStr s)" if "xs \<noteq> []"
  proof -
    from that ih have ne: "ys' \<noteq> []" by auto
    then have "hd ys' \<in> set ys'" by simp
    with ih have hd_in: "hd ys' \<in> set xs" by simp
    from ins ne obtain r where "py_lt (salary_key x) (salary_key (hd ys')) = Inr r" by blast
    from py_lt_Inr [OF this]
    have cmp: "(num_val (salary_key x) \<noteq> None \<and> num_val (salary_key (hd ys')) \<noteq> None)
       \<or> (\<exists>s t. salary_key x = PStr s \<and> salary_key (hd ys') = PStr t)" .
    show ?thesis
    proof (cases "2 \<le> length xs")
      case True
      with ih have rest: "(\<forall>v \<in> set xs. num_val (salary_key v) \<noteq> None)
        \<or> (\<forall>v \<in> set xs. \<exists>s. salary_key v = PStr s)" by blast
      from cmp show ?thesis
      proof
        assume n: "num_val (salary_key x) \<noteq> None \<and> num_val (salary_key (hd ys')) \<noteq> None"
        with hd_in have "\<not> (\<forall>v \<in> set xs. \<exists>s. salary_key v = PStr s)"
          by (metis num_val.simps(5))
        with rest n show ?thesis by simp
      next
        assume s: "\<exists>s t. salary_key x = PStr s \<and> salary_key (hd ys') = PStr t"
        with hd_in have "\<not> (\<forall>v \<in> set xs. num_val (salary_key v) \<noteq> None)"
          by (metis num_val.simps(5))
        with rest s show ?thesis by auto
      qed
    next
      case False
      with that have "length xs = 1"
        by (cases xs) (auto simp add: not_le less_Suc_eq)
      then obtain y where "xs = [y]"
        by (cases xs) auto
      with hd_in cmp show ?thesis by auto
    qed
  qed
  show ?case
  proof (cases "xs = []")
    case True
    with basic show ?thesis by simp
  next
    case False
    from hom [OF this] basic show ?thesis by blast
  qed
qed

lemma sort_vacancies_mixed:
  assumes "v \<in> set xs" "num_val (salary_key v) \<noteq> None"
    and "w \<in> set xs" "salary_key w = PStr s"
  shows "sort_vacancies xs = Inl TypeError"
proof (cases "sort_vacancies xs")
  case (Inl e)
  then show ?thesis using sort_vacancies_Inl by blast
next
  case (Inr ys)
  from assms have "v \<noteq> w" by auto
  with assms(1,3) have "2 \<le> length xs"
    by (cases xs; cases "tl xs") auto
  with sort_vacancies_Inr [OF Inr] have "(\<forall>v \<in> set xs. num_val (salary_key v) \<noteq> None)
        \<or> (\<forall>v \<in> set xs. \<exists>s. salary_key v = PStr s)" by blast
  with assms show ?thesis
    by (metis num_val.simps(5))
qed

text \<open>
  C3, at the input of the claim. On the salaries
  \<open>[50000, "not given", 90000, 50000]\<close> the call \<open>sort_vacancies\<close> raises
  \<open>TypeError\<close>: it does not return the entries with the "not given" one last.
\<close>

theorem sort_vacancies_sentinel_raises:
  "sort_vacancies
     [ex_entry ''a'' (PInt 50000) ''x'', ex_entry ''b'' (PStr salary_not_specified) ''x'',
      ex_entry ''c'' (PInt 90000) ''x'', ex_entry ''d'' (PInt 50000) ''x''] = Inl TypeError"
  by (simp add: ex_entry_def salary_key_def dict_get_def str_def)

lemma sort_vacancies_example:
  "sort_vacancies
     [ex_entry ''a'' (PInt 50000) ''x'', 
      ex_entry ''c'' (PInt 90000) ''x'', ex_entry ''d'' (PInt 50000) ''x''] = 
   Inr [ex_entry ''c'' (PInt 90000) ''x'', ex_entry ''a'' (PInt 50000) ''x'', ex_entry ''d'' (PInt 50000) ''x'']"
  by (simp add: ex_entry_def salary_key_def dict_get_def str_def)

end
